theory Spec2Isabelle
  imports Main "HOL-Library.Word"
begin

section \<open>Data model\<close>

text \<open>
  The firmware works on \<open>uint8_t\<close> axis samples and, in \<open>adc_to_percent\<close>, on a
  \<open>uint16_t\<close> intermediate. Both are fixed-width words; a comparison of a \<open>uint8_t\<close>
  with a macro constant is carried out by C after integer promotion, so it is modelled on
  \<open>uint\<close> of the word against an \<open>int\<close> constant.
\<close>

type_synonym uint8_t = "8 word"
type_synonym uint16_t = "16 word"

text \<open>\<open>include/joystick.h\<close>: the direction enumeration, in declaration order.\<close>

datatype joystick_direction_t =
    DIR_CENTER
  | DIR_NORTH
  | DIR_SOUTH
  | DIR_EAST
  | DIR_WEST
  | DIR_NORTH_EAST
  | DIR_NORTH_WEST
  | DIR_SOUTH_EAST
  | DIR_SOUTH_WEST

text \<open>
  The integer value C gives each enumerator (\<open>DIR_CENTER = 0\<close>, then counting up).
  A C variable of the enumeration type can hold other integers as well, which is why
  \<open>joystick_direction_to_string\<close> below takes the integer.
\<close>

fun direction_value :: "joystick_direction_t \<Rightarrow> int" where
  "direction_value DIR_CENTER = 0"
| "direction_value DIR_NORTH = 1"
| "direction_value DIR_SOUTH = 2"
| "direction_value DIR_EAST = 3"
| "direction_value DIR_WEST = 4"
| "direction_value DIR_NORTH_EAST = 5"
| "direction_value DIR_NORTH_WEST = 6"
| "direction_value DIR_SOUTH_EAST = 7"
| "direction_value DIR_SOUTH_WEST = 8"

text \<open>\<open>include/joystick.h\<close>: one position sample.\<close>

record joystick_position_t =
  pos_x :: uint8_t
  pos_y :: uint8_t

section \<open>Configuration constants (\<open>include/config.h\<close>)\<close>

definition ADC_MAX :: int where "ADC_MAX = 255"

definition THRESHOLD_NORTH_Y :: int where "THRESHOLD_NORTH_Y = 240"
definition THRESHOLD_SOUTH_Y :: int where "THRESHOLD_SOUTH_Y = 50"
definition THRESHOLD_EAST_X :: int where "THRESHOLD_EAST_X = 240"
definition THRESHOLD_WEST_X :: int where "THRESHOLD_WEST_X = 70"

definition CENTER_X_MIN :: int where "CENTER_X_MIN = 70"
definition CENTER_X_MAX :: int where "CENTER_X_MAX = 180"
definition CENTER_Y_MIN :: int where "CENTER_Y_MIN = 110"
definition CENTER_Y_MAX :: int where "CENTER_Y_MAX = 160"

definition DIAGONAL_THRESHOLD_HIGH :: int where "DIAGONAL_THRESHOLD_HIGH = 230"
definition DIAGONAL_THRESHOLD_LOW :: int where "DIAGONAL_THRESHOLD_LOW = 50"

definition LCD_CMD_FUNCTION_SET :: uint8_t where "LCD_CMD_FUNCTION_SET = 0x38"
definition LCD_CMD_DISPLAY_ON :: uint8_t where "LCD_CMD_DISPLAY_ON = 0x0E"
definition LCD_CMD_CLEAR :: uint8_t where "LCD_CMD_CLEAR = 0x01"
definition LCD_CMD_ENTRY_MODE :: uint8_t where "LCD_CMD_ENTRY_MODE = 0x06"
definition LCD_CMD_LINE1 :: uint8_t where "LCD_CMD_LINE1 = 0x80"
definition LCD_CMD_LINE2 :: uint8_t where "LCD_CMD_LINE2 = 0xC0"

section \<open>The joystick module (\<open>src/joystick.c\<close>)\<close>

text \<open>The label table, indexed by the enumerator's value.\<close>

definition direction_names :: "string list" where
  "direction_names = [''C'', ''N'', ''S'', ''E'', ''W'', ''NE'', ''NW'', ''SE'', ''SW'']"

text \<open>
  \<open>joystick_is_centered\<close> returns the C truth value of the conjunction, narrowed to
  \<open>uint8_t\<close>: 1 or 0.
\<close>

definition joystick_is_centered :: "uint8_t \<Rightarrow> uint8_t \<Rightarrow> uint8_t" where
  "joystick_is_centered x y =
     (if uint x \<ge> CENTER_X_MIN \<and> uint x \<le> CENTER_X_MAX \<and>
         uint y \<ge> CENTER_Y_MIN \<and> uint y \<le> CENTER_Y_MAX
      then 1 else 0)"

text \<open>
  \<open>joystick_get_direction\<close>: the chain of early returns, in the order of the source.
  The East and West tests bound \<open>y\<close> above by \<open>CENTER_X_MAX\<close>, as the source does.
\<close>

definition joystick_get_direction :: "uint8_t \<Rightarrow> uint8_t \<Rightarrow> joystick_direction_t" where
  "joystick_get_direction x y =
     (if joystick_is_centered x y \<noteq> 0 then DIR_CENTER
      else if uint x > DIAGONAL_THRESHOLD_HIGH \<and> uint y > DIAGONAL_THRESHOLD_HIGH
        then DIR_NORTH_EAST
      else if uint x < DIAGONAL_THRESHOLD_LOW \<and> uint y > (ADC_MAX - DIAGONAL_THRESHOLD_LOW)
        then DIR_NORTH_WEST
      else if uint x > DIAGONAL_THRESHOLD_HIGH \<and> uint y < DIAGONAL_THRESHOLD_LOW
        then DIR_SOUTH_EAST
      else if uint x < DIAGONAL_THRESHOLD_LOW \<and> uint y < DIAGONAL_THRESHOLD_LOW
        then DIR_SOUTH_WEST
      else if uint y \<ge> THRESHOLD_NORTH_Y \<and> uint x \<ge> CENTER_X_MIN \<and> uint x \<le> CENTER_X_MAX
        then DIR_NORTH
      else if uint y \<le> THRESHOLD_SOUTH_Y \<and> uint x \<ge> CENTER_X_MIN \<and> uint x \<le> CENTER_X_MAX
        then DIR_SOUTH
      else if uint x \<ge> THRESHOLD_EAST_X \<and> uint y \<ge> CENTER_Y_MIN \<and> uint y \<le> CENTER_X_MAX
        then DIR_EAST
      else if uint x \<le> THRESHOLD_WEST_X \<and> uint y \<ge> CENTER_Y_MIN \<and> uint y \<le> CENTER_X_MAX
        then DIR_WEST
      else DIR_CENTER)"

text \<open>
  \<open>joystick_direction_to_string\<close> receives the integer held by its enumeration-typed
  argument; the table is read only inside the guard, everything else is \<open>"?"\<close>.
\<close>

definition joystick_direction_to_string :: "int \<Rightarrow> string" where
  "joystick_direction_to_string dir =
     (if dir \<ge> 0 \<and> dir \<le> direction_value DIR_SOUTH_WEST
      then direction_names ! nat dir
      else ''?'')"

section \<open>The ADC module (\<open>src/adc.c\<close>)\<close>

text \<open>
  \<open>adc_to_percent\<close>: the sample is widened to \<open>uint16_t\<close>, multiplied and divided
  there (unsigned, wrapping at 16 bits), and the quotient is narrowed back to
  \<open>uint8_t\<close>.
\<close>

definition adc_to_percent :: "uint8_t \<Rightarrow> uint8_t" where
  "adc_to_percent v = ucast (((ucast v :: uint16_t) * 100) div 255)"

section \<open>The LCD module (\<open>src/lcd.c\<close>)\<close>

text \<open>
  The display is an output device: the model keeps the sequence of bytes the driver has
  clocked into it, each tagged with the register-select line (command or data). Port
  writes, the enable pulse and the delays inside \<open>lcd_command\<close> and \<open>lcd_data\<close> are
  below this level. Every driver function takes the trace so far and returns it extended.
\<close>

datatype lcd_event = LCD_COMMAND uint8_t | LCD_DATA uint8_t

type_synonym lcd_trace = "lcd_event list"

definition lcd_command :: "uint8_t \<Rightarrow> lcd_trace \<Rightarrow> lcd_trace" where
  "lcd_command cmd t = t @ [LCD_COMMAND cmd]"

definition lcd_data :: "uint8_t \<Rightarrow> lcd_trace \<Rightarrow> lcd_trace" where
  "lcd_data d t = t @ [LCD_DATA d]"

definition lcd_init :: "lcd_trace \<Rightarrow> lcd_trace" where
  "lcd_init t =
     lcd_command LCD_CMD_LINE1
       (lcd_command LCD_CMD_ENTRY_MODE
         (lcd_command LCD_CMD_CLEAR
           (lcd_command LCD_CMD_DISPLAY_ON
             (lcd_command LCD_CMD_FUNCTION_SET t))))"

text \<open>The address is computed in \<open>uint8_t\<close>, so the sum wraps at 256.\<close>

definition lcd_set_cursor :: "uint8_t \<Rightarrow> uint8_t \<Rightarrow> lcd_trace \<Rightarrow> lcd_trace" where
  "lcd_set_cursor row col t =
     (let address = (if row = 0 then LCD_CMD_LINE1 + col else LCD_CMD_LINE2 + col)
      in lcd_command address t)"

text \<open>
  \<open>lcd_print\<close> walks the string up to its terminating NUL; the argument here is the
  text before the terminator.
\<close>

fun lcd_print :: "string \<Rightarrow> lcd_trace \<Rightarrow> lcd_trace" where
  "lcd_print [] t = t"
| "lcd_print (c # str) t = lcd_print str (lcd_data (of_char c) t)"

section \<open>The direction display program (\<open>examples/direction_display/main.c\<close>)\<close>

text \<open>
  The state \<open>main\<close> carries from one cycle to the next: the local \<open>last_dir\<close> and what
  the display has received. The locals \<open>pos\<close> and \<open>dir\<close> are written afresh in every
  cycle.
\<close>

record main_state =
  last_dir :: joystick_direction_t
  lcd :: lcd_trace

text \<open>Everything \<open>main\<close> does before it enters the loop.\<close>

definition main_startup :: main_state where
  "main_startup =
     \<lparr> last_dir = DIR_CENTER,
       lcd = lcd_print ''C'' (lcd_set_cursor 1 0 (lcd_print ''Direction:'' (lcd_init []))) \<rparr>"

text \<open>The body of the \<open>if (dir != last_dir)\<close> block that redraws line 2.\<close>

definition display_direction :: "joystick_direction_t \<Rightarrow> lcd_trace \<Rightarrow> lcd_trace" where
  "display_direction dir t =
     lcd_print (joystick_direction_to_string (direction_value dir))
       (lcd_set_cursor 1 0
         (lcd_print ''   ''
           (lcd_set_cursor 1 0 t)))"

text \<open>
  One pass through the body of \<open>while (1)\<close>, given the position \<open>joystick_read\<close>
  delivers in that pass.
\<close>

definition main_cycle :: "main_state \<Rightarrow> joystick_position_t \<Rightarrow> main_state" where
  "main_cycle s pos =
     (let dir = joystick_get_direction (pos_x pos) (pos_y pos)
      in if dir \<noteq> last_dir s
         then s\<lparr> lcd := display_direction dir (lcd s), last_dir := dir \<rparr>
         else s)"

text \<open>
  The loop never exits. Its behaviour over the first \<open>n\<close> cycles is the state after
  consuming the first \<open>n\<close> samples, one per cycle.
\<close>

fun main_loop :: "main_state \<Rightarrow> joystick_position_t list \<Rightarrow> main_state" where
  "main_loop s [] = s"
| "main_loop s (pos # samples) = main_loop (main_cycle s pos) samples"

section \<open>The rule cascade as the specification words it\<close>

text \<open>
  The specification's four-step cascade, first match wins. It differs from the source in
  one place: East and West bound \<open>y\<close> above by \<open>CENTER_Y_MAX\<close>.
\<close>

definition spec_rule_cascade :: "uint8_t \<Rightarrow> uint8_t \<Rightarrow> joystick_direction_t" where
  "spec_rule_cascade x y =
     (if CENTER_X_MIN \<le> uint x \<and> uint x \<le> CENTER_X_MAX \<and>
         CENTER_Y_MIN \<le> uint y \<and> uint y \<le> CENTER_Y_MAX then DIR_CENTER
      else if uint x > DIAGONAL_THRESHOLD_HIGH \<and> uint y > DIAGONAL_THRESHOLD_HIGH
        then DIR_NORTH_EAST
      else if uint x < DIAGONAL_THRESHOLD_LOW \<and> uint y > 255 - DIAGONAL_THRESHOLD_LOW
        then DIR_NORTH_WEST
      else if uint x > DIAGONAL_THRESHOLD_HIGH \<and> uint y < DIAGONAL_THRESHOLD_LOW
        then DIR_SOUTH_EAST
      else if uint x < DIAGONAL_THRESHOLD_LOW \<and> uint y < DIAGONAL_THRESHOLD_LOW
        then DIR_SOUTH_WEST
      else if uint y \<ge> THRESHOLD_NORTH_Y \<and> CENTER_X_MIN \<le> uint x \<and> uint x \<le> CENTER_X_MAX
        then DIR_NORTH
      else if uint y \<le> THRESHOLD_SOUTH_Y \<and> CENTER_X_MIN \<le> uint x \<and> uint x \<le> CENTER_X_MAX
        then DIR_SOUTH
      else if uint x \<ge> THRESHOLD_EAST_X \<and> CENTER_Y_MIN \<le> uint y \<and> uint y \<le> CENTER_Y_MAX
        then DIR_EAST
      else if uint x \<le> THRESHOLD_WEST_X \<and> CENTER_Y_MIN \<le> uint y \<and> uint y \<le> CENTER_Y_MAX
        then DIR_WEST
      else DIR_CENTER)"

text \<open>
  The specification's reading of the polling loop: the directions shown are those of the
  classified sequence that differ from the direction of the cycle before, where the cycle
  before the first one counts as \<open>prev\<close>.
\<close>

definition direction_changes ::
  "joystick_direction_t \<Rightarrow> joystick_direction_t list \<Rightarrow> joystick_direction_t list" where
  "direction_changes prev ds = map snd (filter (\<lambda>(p, d). d \<noteq> p) (zip (prev # ds) ds))"

section \<open>Auxiliary facts\<close>

lemmas config_defs =
  ADC_MAX_def THRESHOLD_NORTH_Y_def THRESHOLD_SOUTH_Y_def THRESHOLD_EAST_X_def
  THRESHOLD_WEST_X_def CENTER_X_MIN_def CENTER_X_MAX_def CENTER_Y_MIN_def CENTER_Y_MAX_def
  DIAGONAL_THRESHOLD_HIGH_def DIAGONAL_THRESHOLD_LOW_def

subsection \<open>Percent conversion\<close>

lemma unat_uint8_bound: "unat (v :: uint8_t) < 256"
  using unsigned_less [of v, where 'a = nat] by simp

lemma unat_widened_product:
  "unat ((ucast (v :: uint8_t) :: uint16_t) * 100) = unat v * 100"
proof -
  have "unat v < 256" by (rule unat_uint8_bound)
  then show ?thesis
    by (simp add: unat_word_ariths unsigned_ucast_eq take_bit_nat_eq_self)
qed

lemma unat_adc_to_percent: "unat (adc_to_percent v) = unat v * 100 div 255"
proof -
  have "unat v < 256" by (rule unat_uint8_bound)
  then have "unat v * 100 div 255 \<le> 100" by simp
  then show ?thesis
    by (simp add: adc_to_percent_def unsigned_ucast_eq take_bit_nat_eq_self unat_div
        unat_widened_product)
qed

subsection \<open>What the display driver appends\<close>

lemma lcd_print_trace: "lcd_print str t = t @ map (\<lambda>c. LCD_DATA (of_char c)) str"
  by (induction str arbitrary: t) (simp_all add: lcd_data_def)

lemma lcd_set_cursor_trace:
  "lcd_set_cursor row col t =
     t @ [LCD_COMMAND (if row = 0 then LCD_CMD_LINE1 + col else LCD_CMD_LINE2 + col)]"
  by (simp add: lcd_set_cursor_def lcd_command_def)

lemma display_direction_trace: "display_direction d t = t @ display_direction d []"
  by (simp add: display_direction_def lcd_print_trace lcd_set_cursor_trace)

lemma display_direction_bytes:
  "display_direction d [] =
     [LCD_COMMAND 0xC0, LCD_DATA 0x20, LCD_DATA 0x20, LCD_DATA 0x20, LCD_COMMAND 0xC0]
     @ map (\<lambda>c. LCD_DATA (of_char c)) (joystick_direction_to_string (direction_value d))"
  by (simp add: display_direction_def lcd_print_trace lcd_set_cursor_trace LCD_CMD_LINE2_def)

subsection \<open>Direction changes\<close>

lemma direction_changes_Nil: "direction_changes prev [] = []"
  by (simp add: direction_changes_def)

lemma direction_changes_Cons:
  "direction_changes prev (d # ds) =
     (if d \<noteq> prev then d # direction_changes d ds else direction_changes d ds)"
  by (simp add: direction_changes_def)

lemma direction_changes_remdups_adj:
  "direction_changes prev ds = tl (remdups_adj (prev # ds))"
proof (induction ds arbitrary: prev)
  case Nil
  show ?case by (simp add: direction_changes_Nil)
next
  case (Cons d ds)
  have unfold_hd: "remdups_adj (d # ds) = d # tl (remdups_adj (d # ds))"
    by (cases ds) simp_all
  show ?case
  proof (cases "d = prev")
    case True
    then show ?thesis by (simp add: direction_changes_Cons Cons.IH)
  next
    case False
    then have "tl (remdups_adj (prev # d # ds)) = remdups_adj (d # ds)" by simp
    with False unfold_hd show ?thesis by (simp add: direction_changes_Cons Cons.IH)
  qed
qed

lemma distinct_adj_direction_changes: "distinct_adj (direction_changes prev ds)"
proof -
  have "distinct_adj (remdups_adj (prev # ds))" by simp
  then have "distinct_adj (tl (remdups_adj (prev # ds)))"
    by (cases "remdups_adj (prev # ds)") (auto dest: distinct_adj_ConsD)
  then show ?thesis by (simp add: direction_changes_remdups_adj)
qed

subsection \<open>One cycle and many\<close>

lemma main_cycle_last_dir:
  "last_dir (main_cycle s pos) = joystick_get_direction (pos_x pos) (pos_y pos)"
  by (simp add: main_cycle_def Let_def)

lemma main_cycle_lcd:
  "lcd (main_cycle s pos) =
     (if joystick_get_direction (pos_x pos) (pos_y pos) \<noteq> last_dir s
      then lcd s @ display_direction (joystick_get_direction (pos_x pos) (pos_y pos)) []
      else lcd s)"
  using display_direction_trace [of _ "lcd s"]
  by (simp add: main_cycle_def Let_def)

lemma main_cycle_lcd_changed:
  "(lcd (main_cycle s pos) \<noteq> lcd s) =
     (joystick_get_direction (pos_x pos) (pos_y pos) \<noteq> last_dir s)"
  by (simp add: main_cycle_lcd display_direction_bytes)

lemma main_loop_trace:
  "lcd (main_loop s samples) =
     lcd s @ concat (map (\<lambda>d. display_direction d [])
       (direction_changes (last_dir s)
          (map (\<lambda>pos. joystick_get_direction (pos_x pos) (pos_y pos)) samples)))"
proof (induction samples arbitrary: s)
  case Nil
  show ?case by (simp add: direction_changes_Nil)
next
  case (Cons pos samples)
  show ?case
    by (simp add: Cons.IH main_cycle_last_dir main_cycle_lcd direction_changes_Cons)
qed

lemma main_loop_last_dir:
  "last_dir (main_loop s samples) =
     last (last_dir s # map (\<lambda>pos. joystick_get_direction (pos_x pos) (pos_y pos)) samples)"
proof (induction samples arbitrary: s)
  case Nil
  show ?case by simp
next
  case (Cons pos samples)
  show ?case by (simp add: Cons.IH main_cycle_last_dir)
qed

section \<open>Boundary values of the classifier\<close>

text \<open>
  C5. At \<open>(255, 128)\<close> the classifier returns East: \<open>x\<close> is at least
  \<open>THRESHOLD_EAST_X = 240\<close> and \<open>y = 128\<close> passes the East rule's test on \<open>y\<close>.
\<close>

theorem get_direction_255_128:
  "joystick_get_direction 255 128 = DIR_EAST \<and> uint (255 :: uint8_t) \<ge> THRESHOLD_EAST_X
   \<and> THRESHOLD_EAST_X = 240"
  by (simp add: joystick_get_direction_def joystick_is_centered_def config_defs)

text \<open>
  C6. Whenever both axes exceed \<open>DIAGONAL_THRESHOLD_HIGH = 230\<close> the classifier
  returns NorthEast; \<open>(255, 255)\<close> is such a position.
\<close>

theorem north_east_corner:
  assumes "230 < uint x" and "230 < uint y"
  shows "joystick_get_direction x y = DIR_NORTH_EAST \<and> DIAGONAL_THRESHOLD_HIGH = 230"
  using assms
  by (simp add: joystick_get_direction_def joystick_is_centered_def config_defs)

theorem north_east_corner_witness:
  "230 < uint (255 :: uint8_t) \<and> joystick_get_direction 255 255 = DIR_NORTH_EAST
   \<and> 230 < uint (231 :: uint8_t) \<and> joystick_get_direction 231 231 = DIR_NORTH_EAST"
  using north_east_corner [of 255 255] north_east_corner [of 231 231]
  by simp

section \<open>The classifier is total and its labels are proper\<close>

text \<open>
  C2. For every pair of 8-bit samples the classifier returns one of the nine
  enumerators, whose integer values are the nine distinct numbers 0 to 8; no input is left
  without a direction.
\<close>

theorem get_direction_total:
  "joystick_get_direction x y \<in>
     {DIR_CENTER, DIR_NORTH, DIR_SOUTH, DIR_EAST, DIR_WEST,
      DIR_NORTH_EAST, DIR_NORTH_WEST, DIR_SOUTH_EAST, DIR_SOUTH_WEST}
   \<and> direction_value (joystick_get_direction x y) \<in> {0..8}
   \<and> distinct [DIR_CENTER, DIR_NORTH, DIR_SOUTH, DIR_EAST, DIR_WEST,
      DIR_NORTH_EAST, DIR_NORTH_WEST, DIR_SOUTH_EAST, DIR_SOUTH_WEST]"
  by (cases "joystick_get_direction x y") simp_all

lemma direction_to_string_enum:
  "joystick_direction_to_string (direction_value d) =
     (case d of DIR_CENTER \<Rightarrow> ''C'' | DIR_NORTH \<Rightarrow> ''N'' | DIR_SOUTH \<Rightarrow> ''S''
      | DIR_EAST \<Rightarrow> ''E'' | DIR_WEST \<Rightarrow> ''W'' | DIR_NORTH_EAST \<Rightarrow> ''NE''
      | DIR_NORTH_WEST \<Rightarrow> ''NW'' | DIR_SOUTH_EAST \<Rightarrow> ''SE'' | DIR_SOUTH_WEST \<Rightarrow> ''SW'')"
  by (cases d) (simp_all add: joystick_direction_to_string_def direction_names_def)

lemma direction_to_string_out_of_range:
  "dir < 0 \<or> 8 < dir \<Longrightarrow> joystick_direction_to_string dir = ''?''"
  by (auto simp: joystick_direction_to_string_def)

text \<open>
  C3. The label of a classified position is one of the nine fixed labels, following
  the table Center "C", North "N", South "S", East "E", West "W", NorthEast "NE",
  NorthWest "NW", SouthEast "SE", SouthWest "SW", and is never the default "?".
\<close>

theorem direction_label_proper:
  "joystick_direction_to_string (direction_value (joystick_get_direction x y))
     \<in> {''C'', ''N'', ''S'', ''E'', ''W'', ''NE'', ''NW'', ''SE'', ''SW''}
   \<and> joystick_direction_to_string (direction_value (joystick_get_direction x y)) \<noteq> ''?''
   \<and> joystick_direction_to_string (direction_value DIR_CENTER) = ''C''
   \<and> joystick_direction_to_string (direction_value DIR_NORTH) = ''N''
   \<and> joystick_direction_to_string (direction_value DIR_SOUTH) = ''S''
   \<and> joystick_direction_to_string (direction_value DIR_EAST) = ''E''
   \<and> joystick_direction_to_string (direction_value DIR_WEST) = ''W''
   \<and> joystick_direction_to_string (direction_value DIR_NORTH_EAST) = ''NE''
   \<and> joystick_direction_to_string (direction_value DIR_NORTH_WEST) = ''NW''
   \<and> joystick_direction_to_string (direction_value DIR_SOUTH_EAST) = ''SE''
   \<and> joystick_direction_to_string (direction_value DIR_SOUTH_WEST) = ''SW''"
proof -
  have labels: "joystick_direction_to_string (direction_value d)
          \<in> {''C'', ''N'', ''S'', ''E'', ''W'', ''NE'', ''NW'', ''SE'', ''SW''}
        \<and> joystick_direction_to_string (direction_value d) \<noteq> ''?''" for d
    by (cases d) (simp_all add: joystick_direction_to_string_def direction_names_def)
  have table:
    "joystick_direction_to_string (direction_value DIR_CENTER) = ''C''"
    "joystick_direction_to_string (direction_value DIR_NORTH) = ''N''"
    "joystick_direction_to_string (direction_value DIR_SOUTH) = ''S''"
    "joystick_direction_to_string (direction_value DIR_EAST) = ''E''"
    "joystick_direction_to_string (direction_value DIR_WEST) = ''W''"
    "joystick_direction_to_string (direction_value DIR_NORTH_EAST) = ''NE''"
    "joystick_direction_to_string (direction_value DIR_NORTH_WEST) = ''NW''"
    "joystick_direction_to_string (direction_value DIR_SOUTH_EAST) = ''SE''"
    "joystick_direction_to_string (direction_value DIR_SOUTH_WEST) = ''SW''"
    by (simp_all add: joystick_direction_to_string_def direction_names_def)
  from labels [of "joystick_get_direction x y"] table show ?thesis
    by blast
qed

section \<open>The center predicate\<close>

text \<open>
  C4. \<open>joystick_is_centered\<close> returns 1 exactly when \<open>x\<close> lies in
  \<open>[CENTER_X_MIN, CENTER_X_MAX]\<close> and \<open>y\<close> in \<open>[CENTER_Y_MIN, CENTER_Y_MAX]\<close>, and 0
  otherwise; whenever it returns 1 the classifier returns \<open>DIR_CENTER\<close>.
\<close>

theorem is_centered_agrees:
  "(joystick_is_centered x y = 1) =
     (CENTER_X_MIN \<le> uint x \<and> uint x \<le> CENTER_X_MAX \<and>
      CENTER_Y_MIN \<le> uint y \<and> uint y \<le> CENTER_Y_MAX)
   \<and> (joystick_is_centered x y = 0) =
     (\<not> (CENTER_X_MIN \<le> uint x \<and> uint x \<le> CENTER_X_MAX \<and>
         CENTER_Y_MIN \<le> uint y \<and> uint y \<le> CENTER_Y_MAX))
   \<and> (joystick_is_centered x y = 1 \<longrightarrow> joystick_get_direction x y = DIR_CENTER)"
  by (simp add: joystick_is_centered_def joystick_get_direction_def)

theorem is_centered_agrees_witness:
  "joystick_is_centered 128 128 = 1 \<and> joystick_get_direction 128 128 = DIR_CENTER
   \<and> joystick_is_centered 128 200 = 0"
  using is_centered_agrees [of 128 128] is_centered_agrees [of 128 200]
  by (simp add: config_defs)

section \<open>The East band and the uncovered gap\<close>

text \<open>
  C9. For every \<open>x\<close> from 240 to 255 and every \<open>y\<close> from 110 to 180 the classifier
  returns East: the East rule's band for \<open>y\<close> runs from \<open>CENTER_Y_MIN = 110\<close> to
  \<open>CENTER_X_MAX = 180\<close>, beyond \<open>CENTER_Y_MAX = 160\<close>.
\<close>

theorem east_band:
  assumes "240 \<le> uint x" and "uint x \<le> 255" and "110 \<le> uint y" and "uint y \<le> 180"
  shows "joystick_get_direction x y = DIR_EAST"
  using assms
  by (simp add: joystick_get_direction_def joystick_is_centered_def config_defs)

theorem east_band_witness:
  "240 \<le> uint (250 :: uint8_t) \<and> uint (250 :: uint8_t) \<le> 255
   \<and> 110 \<le> uint (170 :: uint8_t) \<and> uint (170 :: uint8_t) \<le> 180
   \<and> CENTER_Y_MAX < uint (170 :: uint8_t)
   \<and> joystick_get_direction 250 170 = DIR_EAST"
  using east_band [of 250 170]
  by (simp add: config_defs)



section \<open>The source against the specification's cascade\<close>

text \<open>
  Where the source and the cascade part ways: exactly on the strip of \<open>y\<close> above
  \<open>CENTER_Y_MAX\<close> and up to \<open>CENTER_X_MAX\<close>, at the \<open>x\<close> of the East and West tests.
\<close>

lemma get_direction_vs_cascade:
  "(joystick_get_direction x y = spec_rule_cascade x y) =
     (\<not> (CENTER_Y_MAX < uint y \<and> uint y \<le> CENTER_X_MAX \<and>
         (THRESHOLD_EAST_X \<le> uint x \<or> uint x \<le> THRESHOLD_WEST_X)))"
proof (cases "CENTER_Y_MAX < uint y \<and> uint y \<le> CENTER_X_MAX")
  case False
  then have "uint y \<le> 160 \<or> 180 < uint y"
    by (simp add: config_defs) linarith
  then show ?thesis
  proof
    assume "uint y \<le> 160"
    then show ?thesis
      by (simp add: joystick_get_direction_def joystick_is_centered_def spec_rule_cascade_def
          config_defs)
  next
    assume "180 < uint y"
    then show ?thesis
      by (simp add: joystick_get_direction_def joystick_is_centered_def spec_rule_cascade_def
          config_defs)
  qed
next
  case True
  then have "160 < uint y" and "uint y \<le> 180"
    by (simp_all add: config_defs)
  then show ?thesis
    by (simp add: joystick_get_direction_def joystick_is_centered_def spec_rule_cascade_def
        config_defs)
qed

text \<open>
  C1. The classifier is meant to equal the specification's cascade on every input.
  At \<open>(255, 170)\<close> it does not: the source's East test accepts \<open>y\<close> up to
  \<open>CENTER_X_MAX\<close> and returns East, where the cascade, bounding \<open>y\<close> by
  \<open>CENTER_Y_MAX\<close>, falls through to Center. The West test differs the same way at
  \<open>(0, 170)\<close>.
\<close>

theorem get_direction_255_170:
  "joystick_get_direction 255 170 = DIR_EAST \<and> spec_rule_cascade 255 170 = DIR_CENTER
   \<and> joystick_get_direction 0 170 = DIR_WEST \<and> spec_rule_cascade 0 170 = DIR_CENTER"
  by (simp add: joystick_get_direction_def joystick_is_centered_def spec_rule_cascade_def
      config_defs)

section \<open>Percent conversion\<close>

text \<open>
  C10. For every 8-bit value, \<open>adc_to_percent\<close> is the truncating quotient of
  \<open>value * 100\<close> by 255: the product, taken in 16 bits, is the exact product and at most
  25500, so nothing wraps. Hence the result lies between 0 and 100, 0 maps to 0, 255 maps to
  100, and the function is monotone nondecreasing.
\<close>

theorem adc_to_percent_exact:
  "unat (adc_to_percent v) = unat v * 100 div 255
   \<and> unat ((ucast v :: uint16_t) * 100) = unat v * 100
   \<and> unat v * 100 \<le> 25500
   \<and> unat (adc_to_percent v) \<le> 100
   \<and> adc_to_percent 0 = 0
   \<and> adc_to_percent 255 = 100
   \<and> (v \<le> w \<longrightarrow> adc_to_percent v \<le> adc_to_percent w)"
proof -
  have bound: "unat v < 256" by (rule unat_uint8_bound)
  then have "unat v * 100 \<le> 25500" by simp
  moreover from bound have "unat v * 100 div 255 \<le> 100" by simp
  moreover have "adc_to_percent 0 = 0" and "adc_to_percent 255 = 100"
    by (simp_all add: adc_to_percent_def)
  moreover have "v \<le> w \<longrightarrow> adc_to_percent v \<le> adc_to_percent w"
    by (simp add: word_le_nat_alt unat_adc_to_percent div_le_mono)
  ultimately show ?thesis
    by (simp add: unat_adc_to_percent unat_widened_product)
qed

theorem adc_to_percent_exact_witness:
  "(10 :: uint8_t) \<le> 200 \<and> adc_to_percent 10 \<le> adc_to_percent 200
   \<and> unat (adc_to_percent 10) = 3 \<and> unat (adc_to_percent 200) = 78"
  using adc_to_percent_exact [of 10 200] adc_to_percent_exact [of 200 200]
  by simp

section \<open>The polling loop\<close>

text \<open>
  C8. The loop starts with previous direction Center. In each cycle it classifies the
  sampled position and redraws the display exactly when that direction differs from the
  previous cycle's; otherwise the display receives nothing. Over any sequence of samples
  the display therefore receives one redraw per direction change, in order, and no two
  consecutive redraws show the same direction.
\<close>

theorem polling_loop_dispatch:
  "last_dir main_startup = DIR_CENTER
   \<and> lcd (main_loop main_startup samples) =
       lcd main_startup @ concat (map (\<lambda>d. display_direction d [])
         (direction_changes DIR_CENTER
            (map (\<lambda>p. joystick_get_direction (pos_x p) (pos_y p)) samples)))
   \<and> distinct_adj (direction_changes DIR_CENTER
        (map (\<lambda>p. joystick_get_direction (pos_x p) (pos_y p)) samples))
   \<and> last_dir (main_loop main_startup samples) =
       last (DIR_CENTER # map (\<lambda>p. joystick_get_direction (pos_x p) (pos_y p)) samples)
   \<and> lcd (main_cycle s pos) =
       (if joystick_get_direction (pos_x pos) (pos_y pos) \<noteq> last_dir s
        then lcd s @ display_direction (joystick_get_direction (pos_x pos) (pos_y pos)) []
        else lcd s)
   \<and> (lcd (main_cycle s pos) \<noteq> lcd s) =
       (joystick_get_direction (pos_x pos) (pos_y pos) \<noteq> last_dir s)
   \<and> last_dir (main_cycle s pos) = joystick_get_direction (pos_x pos) (pos_y pos)
   \<and> display_direction d [] =
       [LCD_COMMAND 0xC0, LCD_DATA 0x20, LCD_DATA 0x20, LCD_DATA 0x20, LCD_COMMAND 0xC0]
       @ map (\<lambda>c. LCD_DATA (of_char c)) (joystick_direction_to_string (direction_value d))"
proof -
  have start: "last_dir main_startup = DIR_CENTER"
    by (simp add: main_startup_def)
  have "lcd (main_loop main_startup samples) =
       lcd main_startup @ concat (map (\<lambda>d. display_direction d [])
         (direction_changes DIR_CENTER
            (map (\<lambda>p. joystick_get_direction (pos_x p) (pos_y p)) samples)))"
    using main_loop_trace [of main_startup samples] by (simp only: start)
  moreover have "last_dir (main_loop main_startup samples) =
       last (DIR_CENTER # map (\<lambda>p. joystick_get_direction (pos_x p) (pos_y p)) samples)"
    using main_loop_last_dir [of main_startup samples] by (simp only: start)
  moreover note start distinct_adj_direction_changes main_cycle_lcd [of s pos]
    main_cycle_lcd_changed [of s pos] main_cycle_last_dir [of s pos]
    display_direction_bytes [of d]
  ultimately show ?thesis
    by (intro conjI)
qed

theorem polling_loop_dispatch_witness:
  "direction_changes DIR_CENTER
     (map (\<lambda>p. joystick_get_direction (pos_x p) (pos_y p))
        [\<lparr>pos_x = 128, pos_y = 128\<rparr>, \<lparr>pos_x = 255, pos_y = 128\<rparr>,
         \<lparr>pos_x = 255, pos_y = 128\<rparr>, \<lparr>pos_x = 255, pos_y = 255\<rparr>])
     = [DIR_EAST, DIR_NORTH_EAST]
   \<and> lcd (main_loop main_startup
        [\<lparr>pos_x = 128, pos_y = 128\<rparr>, \<lparr>pos_x = 255, pos_y = 128\<rparr>,
         \<lparr>pos_x = 255, pos_y = 128\<rparr>, \<lparr>pos_x = 255, pos_y = 255\<rparr>])
     = lcd main_startup @ display_direction DIR_EAST [] @ display_direction DIR_NORTH_EAST []
   \<and> last_dir (main_loop main_startup
        [\<lparr>pos_x = 128, pos_y = 128\<rparr>, \<lparr>pos_x = 255, pos_y = 128\<rparr>,
         \<lparr>pos_x = 255, pos_y = 128\<rparr>, \<lparr>pos_x = 255, pos_y = 255\<rparr>])
     = DIR_NORTH_EAST"
proof -
  have classified:
    "map (\<lambda>p. joystick_get_direction (pos_x p) (pos_y p))
        [\<lparr>pos_x = 128, pos_y = 128\<rparr>, \<lparr>pos_x = 255, pos_y = 128\<rparr>,
         \<lparr>pos_x = 255, pos_y = 128\<rparr>, \<lparr>pos_x = 255, pos_y = 255\<rparr>]
     = [DIR_CENTER, DIR_EAST, DIR_EAST, DIR_NORTH_EAST]"
    by (simp add: joystick_get_direction_def joystick_is_centered_def config_defs)
  have changes:
    "direction_changes DIR_CENTER [DIR_CENTER, DIR_EAST, DIR_EAST, DIR_NORTH_EAST]
     = [DIR_EAST, DIR_NORTH_EAST]"
    by (simp add: direction_changes_def)
  have run:
    "lcd (main_loop main_startup
        [\<lparr>pos_x = 128, pos_y = 128\<rparr>, \<lparr>pos_x = 255, pos_y = 128\<rparr>,
         \<lparr>pos_x = 255, pos_y = 128\<rparr>, \<lparr>pos_x = 255, pos_y = 255\<rparr>])
       = lcd main_startup @ concat (map (\<lambda>d. display_direction d [])
           (direction_changes DIR_CENTER [DIR_CENTER, DIR_EAST, DIR_EAST, DIR_NORTH_EAST]))"
    "last_dir (main_loop main_startup
        [\<lparr>pos_x = 128, pos_y = 128\<rparr>, \<lparr>pos_x = 255, pos_y = 128\<rparr>,
         \<lparr>pos_x = 255, pos_y = 128\<rparr>, \<lparr>pos_x = 255, pos_y = 255\<rparr>])
       = last [DIR_CENTER, DIR_CENTER, DIR_EAST, DIR_EAST, DIR_NORTH_EAST]"
    using polling_loop_dispatch
      [of "[\<lparr>pos_x = 128, pos_y = 128\<rparr>, \<lparr>pos_x = 255, pos_y = 128\<rparr>,
            \<lparr>pos_x = 255, pos_y = 128\<rparr>, \<lparr>pos_x = 255, pos_y = 255\<rparr>]"]
    unfolding classified
    by blast+
  show ?thesis
    unfolding classified run changes
    by simp
qed

end
